theory Spec2Isabelle
  imports Main "HOL-Library.Word"
begin

section \<open>Data model\<close>

text \<open>
  The codec of \<^verbatim>\<open>morph.py\<close> has two functions, \<^verbatim>\<open>unpack\<close> (bytes to string) and
  \<^verbatim>\<open>pack\<close> (string to bytes). A \<^verbatim>\<open>bytearray\<close> is a list of 8-bit words. A Python
  string is a list of characters whose code points lie in 0..255: this is exactly the
  range of the codepage cp037, which maps the 256 byte values one-to-one onto these code
  points. Python integers are unbounded, so they are \<^typ>\<open>int\<close>.

  Every way the functions can end without returning a value is a constructor of
  \<open>error\<close>: the exceptions raised by the library calls they make, and the call of
  \<^verbatim>\<open>exit()\<close> after \<^verbatim>\<open>print\<close>, which carries the text printed before the process ends.
\<close>

type_synonym byte = "8 word"
type_synonym bytearray = "byte list"

datatype error =
    ValueError
  | IndexError
  | StructError
  | SystemExit string

section \<open>The library functions the codec calls\<close>

subsection \<open>Characters and strings\<close>

definition code_point :: "char \<Rightarrow> nat" where
  "code_point c = of_char c"

text \<open>\<^verbatim>\<open>str.lower()\<close> on the code points 0..255: A-Z and the accented capitals
  0xC0..0xDE (without the multiplication sign 0xD7) move up by 32.\<close>

definition lower_char :: "char \<Rightarrow> char" where
  "lower_char c =
     (let n = code_point c
      in if (0x41 \<le> n \<and> n \<le> 0x5A) \<or> (0xC0 \<le> n \<and> n \<le> 0xDE \<and> n \<noteq> 0xD7)
         then char_of (n + 32) else c)"

definition lower :: "string \<Rightarrow> string" where
  "lower s = map lower_char s"

text \<open>\<^verbatim>\<open>str.isspace()\<close> for one character, as \<^verbatim>\<open>rstrip()\<close> uses it.\<close>

definition isspace :: "char \<Rightarrow> bool" where
  "isspace c =
     (let n = code_point c
      in (0x09 \<le> n \<and> n \<le> 0x0D) \<or> (0x1C \<le> n \<and> n \<le> 0x20) \<or> n = 0x85 \<or> n = 0xA0)"

definition rstrip :: "string \<Rightarrow> string" where
  "rstrip s = rev (dropWhile isspace (rev s))"

text \<open>\<^verbatim>\<open>s.replace(c, '')\<close> for a one-character \<^verbatim>\<open>c\<close>.\<close>

definition remove_char :: "char \<Rightarrow> string \<Rightarrow> string" where
  "remove_char c s = filter (\<lambda>x. x \<noteq> c) s"

text \<open>\<^verbatim>\<open>s.replace("0b", "")\<close>: every occurrence, scanning from the left.\<close>

fun remove_0b :: "string \<Rightarrow> string" where
  "remove_0b (a # b # cs) =
     (if a = CHR ''0'' \<and> b = CHR ''b'' then remove_0b cs else a # remove_0b (b # cs))"
| "remove_0b cs = cs"

definition startswith :: "string \<Rightarrow> char \<Rightarrow> bool" where
  "startswith s c = (case s of [] \<Rightarrow> False | x # _ \<Rightarrow> x = c)"

text \<open>\<^verbatim>\<open>str.zfill(width)\<close>: pads with zeros on the left, after a leading sign.\<close>

definition zfill :: "string \<Rightarrow> int \<Rightarrow> string" where
  "zfill s width =
     (if width \<le> int (length s) then s
      else let fill = replicate (nat (width - int (length s))) (CHR ''0'')
           in case s of
                [] \<Rightarrow> fill
              | c # r \<Rightarrow> if c = CHR ''+'' \<or> c = CHR ''-'' then c # fill @ r else fill @ s)"

text \<open>Slices \<^verbatim>\<open>s[:j]\<close>, \<^verbatim>\<open>s[i:]\<close> and \<^verbatim>\<open>s[i:j]\<close>: a negative index counts from
  the end, and every index is clamped to the length.\<close>

definition slice_index :: "nat \<Rightarrow> int \<Rightarrow> nat" where
  "slice_index n i = (if i < 0 then nat (int n + i) else min (nat i) n)"

definition slice_to :: "'a list \<Rightarrow> int \<Rightarrow> 'a list" where
  "slice_to s j = take (slice_index (length s) j) s"

definition slice_from :: "'a list \<Rightarrow> int \<Rightarrow> 'a list" where
  "slice_from s i = drop (slice_index (length s) i) s"

definition slice :: "'a list \<Rightarrow> int \<Rightarrow> int \<Rightarrow> 'a list" where
  "slice s i j = drop (slice_index (length s) i) (take (slice_index (length s) j) s)"

text \<open>\<^verbatim>\<open>sep.join(s)\<close> over the characters of a string.\<close>

fun join :: "char \<Rightarrow> string \<Rightarrow> string" where
  "join sep [] = []"
| "join sep [c] = [c]"
| "join sep (c # d # cs) = c # sep # join sep (d # cs)"

text \<open>Comparison \<^verbatim>\<open>a <= b\<close> of two strings: lexicographic on code points, a proper
  prefix being smaller.\<close>

fun str_le :: "string \<Rightarrow> string \<Rightarrow> bool" where
  "str_le [] b = True"
| "str_le (x # xs) [] = False"
| "str_le (x # xs) (y # ys) =
     (code_point x < code_point y \<or> (x = y \<and> str_le xs ys))"

subsection \<open>Integers and their text\<close>

definition digit_char :: "nat \<Rightarrow> char" where
  "digit_char n = ''0123456789abcdef'' ! n"

function digits :: "int \<Rightarrow> int \<Rightarrow> string" where
  "digits b n =
     (if b < 2 \<or> n < b then [digit_char (nat n)]
      else digits b (n div b) @ [digit_char (nat (n mod b))])"
  by pat_completeness auto
termination
proof (relation "measure (\<lambda>(b, n). nat n)")
  show "wf (measure (\<lambda>(b, n). nat n))"
    by simp
next
  fix b n :: int
  assume "\<not> (b < 2 \<or> n < b)"
  then have "2 \<le> b" and "0 < n"
    by simp_all
  then have "n div b < n"
    by (simp add: int_div_less_self)
  with \<open>0 < n\<close> show "((b, n div b), (b, n)) \<in> measure (\<lambda>(b, n). nat n)"
    by simp
qed

declare digits.simps [simp del]

text \<open>\<^verbatim>\<open>str(n)\<close> and \<^verbatim>\<open>bin(n)\<close> of an integer.\<close>

definition str :: "int \<Rightarrow> string" where
  "str n = (if n < 0 then CHR ''-'' # digits 10 (- n) else digits 10 n)"

definition bin :: "int \<Rightarrow> string" where
  "bin n = (if n < 0 then ''-0b'' @ digits 2 (- n) else ''0b'' @ digits 2 n)"

definition hex_value :: "char \<Rightarrow> nat option" where
  "hex_value c =
     (let n = code_point c
      in if 0x30 \<le> n \<and> n \<le> 0x39 then Some (n - 0x30)
         else if 0x61 \<le> n \<and> n \<le> 0x66 then Some (n - 0x61 + 10)
         else if 0x41 \<le> n \<and> n \<le> 0x46 then Some (n - 0x41 + 10)
         else None)"

definition dec_value :: "char \<Rightarrow> nat option" where
  "dec_value c =
     (let n = code_point c in if 0x30 \<le> n \<and> n \<le> 0x39 then Some (n - 0x30) else None)"

text \<open>The digits of an integer literal after its sign and prefix: a digit first, then
  digits, each optionally preceded by one underscore.\<close>

fun literal_digits :: "(char \<Rightarrow> nat option) \<Rightarrow> int \<Rightarrow> int \<Rightarrow> string \<Rightarrow> int option" where
  "literal_digits val b acc [] = Some acc"
| "literal_digits val b acc [c] =
     (case val c of None \<Rightarrow> None | Some v \<Rightarrow> Some (acc * b + int v))"
| "literal_digits val b acc (c # d # cs) =
     (if c = CHR ''_''
      then (case val d of None \<Rightarrow> None | Some v \<Rightarrow> literal_digits val b (acc * b + int v) cs)
      else (case val c of None \<Rightarrow> None | Some v \<Rightarrow> literal_digits val b (acc * b + int v) (d # cs)))"

definition literal :: "(char \<Rightarrow> nat option) \<Rightarrow> int \<Rightarrow> string \<Rightarrow> int option" where
  "literal val b s =
     (case s of
        [] \<Rightarrow> None
      | c # cs \<Rightarrow> (case val c of None \<Rightarrow> None | Some v \<Rightarrow> literal_digits val b (int v) cs))"

text \<open>The white space \<^verbatim>\<open>int()\<close> skips around a literal.\<close>

definition int_space :: "char \<Rightarrow> bool" where
  "int_space c =
     (let n = code_point c in (0x09 \<le> n \<and> n \<le> 0x0D) \<or> n = 0x20 \<or> n = 0x85 \<or> n = 0xA0)"

text \<open>\<^verbatim>\<open>int(value)\<close>: base 10, white space around, one optional sign.
  \<^verbatim>\<open>ValueError\<close> for anything else.\<close>

definition int_of_str :: "string \<Rightarrow> error + int" where
  "int_of_str s =
     (let t = rev (dropWhile int_space (rev (dropWhile int_space s)));
          r = (case t of
                 [] \<Rightarrow> None
               | c # cs \<Rightarrow>
                   if c = CHR ''-'' then map_option uminus (literal dec_value 10 cs)
                   else if c = CHR ''+'' then literal dec_value 10 cs
                   else literal dec_value 10 t)
      in case r of None \<Rightarrow> Inl ValueError | Some n \<Rightarrow> Inr n)"

text \<open>\<^verbatim>\<open>int("0x" + h, 0)\<close>: the literal is hexadecimal by its prefix;
  \<^verbatim>\<open>ValueError\<close> when no digit follows the prefix.\<close>

definition int_of_0x :: "string \<Rightarrow> error + int" where
  "int_of_0x h =
     (case (case h of
              [] \<Rightarrow> None
            | c # cs \<Rightarrow> if c = CHR ''_'' then literal hex_value 16 cs else literal hex_value 16 h)
      of None \<Rightarrow> Inl ValueError | Some n \<Rightarrow> Inr n)"

subsection \<open>Bytes\<close>

text \<open>\<^verbatim>\<open>bytes.hex()\<close>: two lowercase hexadecimal digits for each byte.\<close>

definition hex_byte :: "byte \<Rightarrow> string" where
  "hex_byte b = [digit_char (unat b div 16), digit_char (unat b mod 16)]"

definition hex :: "bytearray \<Rightarrow> string" where
  "hex bs = concat (map hex_byte bs)"

definition ascii_space :: "char \<Rightarrow> bool" where
  "ascii_space c = (let n = code_point c in (0x09 \<le> n \<and> n \<le> 0x0D) \<or> n = 0x20)"

text \<open>\<^verbatim>\<open>bytearray.fromhex(s)\<close>: ASCII white space is skipped before each byte, the
  two digits of a byte are adjacent. \<^verbatim>\<open>ValueError\<close> for any other character and for a
  digit without its pair.\<close>

fun fromhex :: "string \<Rightarrow> error + bytearray" where
  "fromhex [] = Inr []"
| "fromhex [c] = (if ascii_space c then Inr [] else Inl ValueError)"
| "fromhex (c # d # cs) =
     (if ascii_space c then fromhex (d # cs)
      else case hex_value c of
             None \<Rightarrow> Inl ValueError
           | Some hi \<Rightarrow>
               (case hex_value d of
                  None \<Rightarrow> Inl ValueError
                | Some lo \<Rightarrow>
                    (case fromhex cs of
                       Inl e \<Rightarrow> Inl e
                     | Inr r \<Rightarrow> Inr (word_of_nat (hi * 16 + lo) # r))))"

text \<open>\<^verbatim>\<open>b.ljust(width, fill)\<close>.\<close>

definition ljust :: "bytearray \<Rightarrow> int \<Rightarrow> byte \<Rightarrow> bytearray" where
  "ljust bs width fill = bs @ replicate (nat (width - int (length bs))) fill"

text \<open>\<^verbatim>\<open>struct.pack(">Q", n)\<close> and \<^verbatim>\<open>struct.pack(">q", n)\<close>: eight bytes, most
  significant first, two's complement for the signed format; \<^verbatim>\<open>struct.error\<close> out of range.\<close>

definition big_endian :: "nat \<Rightarrow> int \<Rightarrow> bytearray" where
  "big_endian k n = map (\<lambda>i. word_of_int (n div 256 ^ i)) (rev [0..<k])"

definition struct_pack_Q :: "int \<Rightarrow> error + bytearray" where
  "struct_pack_Q n = (if 0 \<le> n \<and> n < 2 ^ 64 then Inr (big_endian 8 n) else Inl StructError)"

definition struct_pack_q :: "int \<Rightarrow> error + bytearray" where
  "struct_pack_q n =
     (if - (2 ^ 63) \<le> n \<and> n < 2 ^ 63 then Inr (big_endian 8 n) else Inl StructError)"

subsection \<open>The codepage cp037\<close>

text \<open>The decoding table of the codepage: entry \<open>b\<close> is the code point of byte \<open>b\<close>.
  The table is a permutation of 0..255, so encoding is the position in the table.\<close>

definition cp037_table :: "nat list" where
  "cp037_table =
   [0x00, 0x01, 0x02, 0x03, 0x9C, 0x09, 0x86, 0x7F, 0x97, 0x8D, 0x8E, 0x0B, 0x0C, 0x0D, 0x0E, 0x0F,
    0x10, 0x11, 0x12, 0x13, 0x9D, 0x85, 0x08, 0x87, 0x18, 0x19, 0x92, 0x8F, 0x1C, 0x1D, 0x1E, 0x1F,
    0x80, 0x81, 0x82, 0x83, 0x84, 0x0A, 0x17, 0x1B, 0x88, 0x89, 0x8A, 0x8B, 0x8C, 0x05, 0x06, 0x07,
    0x90, 0x91, 0x16, 0x93, 0x94, 0x95, 0x96, 0x04, 0x98, 0x99, 0x9A, 0x9B, 0x14, 0x15, 0x9E, 0x1A,
    0x20, 0xA0, 0xE2, 0xE4, 0xE0, 0xE1, 0xE3, 0xE5, 0xE7, 0xF1, 0xA2, 0x2E, 0x3C, 0x28, 0x2B, 0x7C,
    0x26, 0xE9, 0xEA, 0xEB, 0xE8, 0xED, 0xEE, 0xEF, 0xEC, 0xDF, 0x21, 0x24, 0x2A, 0x29, 0x3B, 0xAC,
    0x2D, 0x2F, 0xC2, 0xC4, 0xC0, 0xC1, 0xC3, 0xC5, 0xC7, 0xD1, 0xA6, 0x2C, 0x25, 0x5F, 0x3E, 0x3F,
    0xF8, 0xC9, 0xCA, 0xCB, 0xC8, 0xCD, 0xCE, 0xCF, 0xCC, 0x60, 0x3A, 0x23, 0x40, 0x27, 0x3D, 0x22,
    0xD8, 0x61, 0x62, 0x63, 0x64, 0x65, 0x66, 0x67, 0x68, 0x69, 0xAB, 0xBB, 0xF0, 0xFD, 0xFE, 0xB1,
    0xB0, 0x6A, 0x6B, 0x6C, 0x6D, 0x6E, 0x6F, 0x70, 0x71, 0x72, 0xAA, 0xBA, 0xE6, 0xB8, 0xC6, 0xA4,
    0xB5, 0x7E, 0x73, 0x74, 0x75, 0x76, 0x77, 0x78, 0x79, 0x7A, 0xA1, 0xBF, 0xD0, 0xDD, 0xDE, 0xAE,
    0x5E, 0xA3, 0xA5, 0xB7, 0xA9, 0xA7, 0xB6, 0xBC, 0xBD, 0xBE, 0x5B, 0x5D, 0xAF, 0xA8, 0xB4, 0xD7,
    0x7B, 0x41, 0x42, 0x43, 0x44, 0x45, 0x46, 0x47, 0x48, 0x49, 0xAD, 0xF4, 0xF6, 0xF2, 0xF3, 0xF5,
    0x7D, 0x4A, 0x4B, 0x4C, 0x4D, 0x4E, 0x4F, 0x50, 0x51, 0x52, 0xB9, 0xFB, 0xFC, 0xF9, 0xFA, 0xFF,
    0x5C, 0xF7, 0x53, 0x54, 0x55, 0x56, 0x57, 0x58, 0x59, 0x5A, 0xB2, 0xD4, 0xD6, 0xD2, 0xD3, 0xD5,
    0x30, 0x31, 0x32, 0x33, 0x34, 0x35, 0x36, 0x37, 0x38, 0x39, 0xB3, 0xDB, 0xDC, 0xD9, 0xDA, 0x9F]"

fun position :: "nat \<Rightarrow> nat list \<Rightarrow> nat" where
  "position x [] = 0"
| "position x (y # ys) = (if x = y then 0 else Suc (position x ys))"

definition cp037_decode_byte :: "byte \<Rightarrow> char" where
  "cp037_decode_byte b = char_of (cp037_table ! unat b)"

definition cp037_encode_char :: "char \<Rightarrow> byte" where
  "cp037_encode_char c = word_of_nat (position (code_point c) cp037_table)"

text \<open>\<^verbatim>\<open>bytes.decode('cp037')\<close> and \<^verbatim>\<open>str.encode('cp037')\<close>.\<close>

definition decode :: "bytearray \<Rightarrow> string" where
  "decode bs = map cp037_decode_byte bs"

definition encode :: "string \<Rightarrow> bytearray" where
  "encode s = map cp037_encode_char s"

text \<open>\<^verbatim>\<open>print(a, b, ...)\<close>: the arguments separated by one space, then a newline.\<close>

fun print :: "string list \<Rightarrow> string" where
  "print [] = [CHR 0x0A]"
| "print [a] = a @ [CHR 0x0A]"
| "print (a # b # r) = a @ CHR '' '' # print (b # r)"

section \<open>The codec\<close>

definition HighestPositive :: string where
  "HighestPositive = ''7fffffffffffffffffff''"

definition add_dec_places :: "string \<Rightarrow> int \<Rightarrow> string" where
  "add_dec_places value decimal_places =
     (if decimal_places = 0 then value
      else slice_to value (int (length value) - decimal_places) @ ''.''
           @ slice_from value (int (length value) - decimal_places))"

definition unpack :: "bytearray \<Rightarrow> string \<Rightarrow> int \<Rightarrow> bool \<Rightarrow> bool \<Rightarrow> error + string" where
  "unpack bytes type dec_places remove_lv remove_spaces =
     (if lower type = ''ch'' then
        Inr (if remove_lv then rstrip (remove_char (CHR 0x00) (decode bytes)) else decode bytes)
      else if lower type = ''pd'' \<or> lower type = ''pd+'' then
        Inr (add_dec_places
               ((if slice_from (hex bytes) (- 1) \<notin> set [''d'', ''b''] then '''' else ''-'')
                @ slice_to (hex bytes) (- 1))
               dec_places)
      else if lower type = ''bi'' \<or>
              (lower type = ''bi+'' \<and>
               str_le (hex bytes) (slice_to HighestPositive (int (length bytes) * 2))) then
        (case int_of_0x (hex bytes) of
           Inl e \<Rightarrow> Inl e
         | Inr v \<Rightarrow> Inr (add_dec_places (str v) dec_places))
      else if lower type = ''bi+'' then
        (case int_of_0x (hex bytes) of
           Inl e \<Rightarrow> Inl e
         | Inr v \<Rightarrow>
             (case int_of_0x (replicate (length bytes * 2) (CHR ''f'')) of
                Inl e \<Rightarrow> Inl e
              | Inr m \<Rightarrow> Inr (add_dec_places (str (v - m - 1)) dec_places)))
      else if lower type = ''zd'' then
        Inr (add_dec_places (rstrip (remove_char (CHR 0x00) (decode bytes))) dec_places)
      else if lower type = ''zd+'' then
        Inr (add_dec_places
               ((if slice (hex bytes) (- 2) (- 1) \<noteq> ''d'' then '''' else ''-'')
                @ decode (slice_to bytes (- 1)) @ slice_from (hex bytes) (- 1))
               dec_places)
      else if lower type = ''hex'' then
        Inr (hex bytes)
      else if lower type = ''bit'' then
        (case bytes of
           [] \<Rightarrow> Inl IndexError
         | b # _ \<Rightarrow> Inr (join (CHR '';'') (zfill (remove_0b (bin (uint b))) (int (length bytes) * 8))))
      else
        Inl (SystemExit
               (print [''---------------------------'' @ [CHR 0x0A]
                         @ ''Length & Type not supported'' @ [CHR 0x0A] @ ''Length: '',
                       str (int (length bytes)),
                       [CHR 0x0A] @ ''Type: '',
                       type])))"

definition pack :: "string \<Rightarrow> string \<Rightarrow> int \<Rightarrow> int \<Rightarrow> error + bytearray" where
  "pack value type dec_places pad_length =
     (if lower type = ''ch'' then
        Inr (ljust (encode value) pad_length 0x00)
      else if lower type = ''pd'' \<or> lower type = ''pd+'' then
        (let sign = (if startswith value (CHR ''-'') then ''d'' else ''c'');
             value1 = remove_char (CHR ''-'') (remove_char (CHR ''.'') value);
             value2 = zfill value1 (pad_length * 2 - 1)
         in fromhex (value2 @ sign))
      else if lower type = ''bi'' then
        (case int_of_str value of Inl e \<Rightarrow> Inl e | Inr n \<Rightarrow> struct_pack_Q n)
      else if lower type = ''bi+'' then
        (case int_of_str value of Inl e \<Rightarrow> Inl e | Inr n \<Rightarrow> struct_pack_q n)
      else if lower type = ''zd'' \<or> lower type = ''zd+'' then
        (let sign = (if startswith value (CHR ''-'') then ''}'' else ''{'');
             value1 = remove_char (CHR ''-'') (remove_char (CHR ''.'') value);
             value2 = zfill value1 (pad_length - 1) @ sign
         in Inr (encode value2))
      else if lower type = ''hex'' then
        fromhex value
      else
        Inl (SystemExit (print [''Unsupported format:'', type])))"

section \<open>Notions the claims are stated with\<close>

text \<open>Encoding a value and decoding the result under the same field descriptor.\<close>

definition round_trip ::
  "string \<Rightarrow> string \<Rightarrow> int \<Rightarrow> int \<Rightarrow> bool \<Rightarrow> bool \<Rightarrow> error + string" where
  "round_trip v type dec_places pad_length remove_lv remove_spaces =
     (case pack v type dec_places pad_length of
        Inl e \<Rightarrow> Inl e
      | Inr b \<Rightarrow> unpack b type dec_places remove_lv remove_spaces)"

text \<open>The outcome of a call that printed a diagnostic and called \<^verbatim>\<open>exit()\<close>.\<close>

definition exits :: "error + 'a \<Rightarrow> bool" where
  "exits r = (case r of Inl (SystemExit m) \<Rightarrow> True | _ \<Rightarrow> False)"

text \<open>The tags each function has a branch for, in lower case.\<close>

definition unpack_tags :: "string list" where
  "unpack_tags = [''ch'', ''pd'', ''pd+'', ''bi'', ''bi+'', ''zd'', ''zd+'', ''hex'', ''bit'']"

definition pack_tags :: "string list" where
  "pack_tags = [''ch'', ''pd'', ''pd+'', ''bi'', ''bi+'', ''zd'', ''zd+'', ''hex'']"

text \<open>The number a buffer stands for, most significant byte first.\<close>

definition big_endian_value :: "bytearray \<Rightarrow> int" where
  "big_endian_value bs = foldl (\<lambda>a b. a * 256 + uint b) 0 bs"

section \<open>Worked examples of the specification\<close>

text \<open>
  Claim C4. Packed-decimal encoding of \<open>12345\<close> with pad length 3 is the three bytes
  \<open>0x12 0x34 0x5c\<close>, and of \<open>-12345\<close> it is \<open>0x12 0x34 0x5d\<close>, whatever the
  decimal-place count, under the tag \<open>pd\<close> and under \<open>pd+\<close>.
\<close>

theorem pack_packed_decimal_examples:
  "pack ''12345'' ''pd'' d 3 = Inr [0x12, 0x34, 0x5c] \<and>
   pack ''-12345'' ''pd'' d 3 = Inr [0x12, 0x34, 0x5d] \<and>
   pack ''12345'' ''pd+'' d 3 = Inr [0x12, 0x34, 0x5c] \<and>
   pack ''-12345'' ''pd+'' d 3 = Inr [0x12, 0x34, 0x5d]"
  by code_simp



text \<open>
  Claim C1 at the zoned formats. Encoding \<open>12345\<close> with pad length 6 and decoding the
  bytes again does not give \<open>12345\<close> back: signed-zoned decoding reads the low nibble of
  the terminal byte as one more digit and returns \<open>123450\<close>, and zoned decoding returns
  the terminal character as text, \<open>12345{\<close>.
\<close>

theorem zoned_round_trip_example:
  "round_trip ''12345'' ''zd+'' 0 6 lv sp = Inr ''123450'' \<and>
   round_trip ''12345'' ''zd'' 0 6 lv sp = Inr ''12345{''"
  by code_simp

text \<open>
  Claim C3 at a buffer of eleven bytes. The most significant byte is \<open>0x7f\<close>, so its high
  bit is clear and the value is \<open>2 ^ 87 - 256\<close>; the comparison with the twenty
  characters of \<open>HighestPositive\<close> fails all the same, because the hexadecimal text is
  the longer string, and the result is the value minus \<open>2 ^ 88\<close>.
\<close>

theorem unpack_signed_binary_eleven_bytes:
  "unpack [0x7f, 0xff, 0xff, 0xff, 0xff, 0xff, 0xff, 0xff, 0xff, 0xff, 0x00] ''bi+'' 0 lv sp
     = Inr ''-154742504910672534362390784'' \<and>
   unpack [0x7f, 0xff, 0xff, 0xff, 0xff, 0xff, 0xff, 0xff, 0xff, 0xff, 0x00] ''bi'' 0 lv sp
     = Inr ''154742504910672534362390272''"
  by code_simp

text \<open>The two eight-byte examples of claim C3 do hold.\<close>

lemma signed_binary_extremes_round_trip:
  "round_trip ''9223372036854775807'' ''bi+'' 0 0 lv sp = Inr ''9223372036854775807'' \<and>
   round_trip ''-9223372036854775808'' ''bi+'' 0 0 lv sp = Inr ''-9223372036854775808''"
  by code_simp


text \<open>
  Claim C6, as the specification states it, fails: three digits and five decimal places
  give a string, from \<^verbatim>\<open>add_dec_places\<close> and from \<^verbatim>\<open>unpack\<close>.
\<close>

theorem add_dec_places_overflow_counterexample:
  "add_dec_places ''123'' 5 = ''1.23'' \<and>
   unpack [0x12, 0x3c] ''pd'' 5 False False = Inr ''1.23''"
  by code_simp

section \<open>Facts about the library functions\<close>

lemma lower_literals:
  "lower ''ch'' = ''ch''" "lower ''hex'' = ''hex''" "lower ''pd'' = ''pd''"
  "lower ''PD'' = ''pd''" "lower ''xyz'' = ''xyz''" "lower ''XYZ'' = ''xyz''"
  "lower ''bi'' = ''bi''" "lower ''bi+'' = ''bi+''"
  by code_simp+

lemma digit_char_cases:
  assumes "n < 16"
  shows "hex_value (digit_char n) = Some n" and "\<not> ascii_space (digit_char n)"
    and "digit_char n \<noteq> CHR ''_''"
    and "code_point (digit_char n) < code_point (CHR ''f'') \<or> digit_char n = CHR ''f''"
    and "(code_point (digit_char n) < code_point (CHR ''7'') \<or> digit_char n = CHR ''7'') = (n \<le> 7)"
proof -
  from assms have "n \<in> {0, 1, 2, 3, 4, 5, 6, 7, 8, 9, 10, 11, 12, 13, 14, 15}"
    by simp presburger
  then show "hex_value (digit_char n) = Some n" and "\<not> ascii_space (digit_char n)"
    and "digit_char n \<noteq> CHR ''_''"
    and "code_point (digit_char n) < code_point (CHR ''f'') \<or> digit_char n = CHR ''f''"
    and "(code_point (digit_char n) < code_point (CHR ''7'') \<or> digit_char n = CHR ''7'') = (n \<le> 7)"
    by (auto simp: digit_char_def hex_value_def ascii_space_def code_point_def)
qed

text \<open>Parsing the hexadecimal text of a buffer gives the buffer back.\<close>

lemma fromhex_hex: "fromhex (hex bs) = Inr bs"
proof (induction bs)
  case Nil
  show ?case by (simp add: hex_def)
next
  case (Cons b bs)
  have hi: "unat b div 16 < 16"
    using unsigned_less [of b, where 'a = nat] by (simp add: less_mult_imp_div_less)
  have lo: "unat b mod 16 < 16"
    by simp
  have "hex (b # bs) = digit_char (unat b div 16) # digit_char (unat b mod 16) # hex bs"
    by (simp add: hex_def hex_byte_def)
  moreover have "(word_of_nat (unat b div 16 * 16 + unat b mod 16) :: byte) = b"
    by simp
  ultimately show ?case
    using Cons.IH digit_char_cases [OF hi] digit_char_cases [OF lo] by simp
qed

subsection \<open>Binary decoding\<close>

text \<open>
  The hexadecimal text of a non-empty buffer parses to its big-endian value, and the
  comparison of that text with the first characters of \<open>HighestPositive\<close> tests the
  high bit of the first byte, as long as the buffer has at most ten bytes. So signed
  binary decoding is two's complement for every buffer of one to ten bytes.
\<close>

lemma nibbles: "unat (b :: byte) div 16 < 16" "unat b mod 16 < 16"
  using unsigned_less [of b, where 'a = nat] by (simp_all add: less_mult_imp_div_less)

lemma hex_Cons: "hex (b # bs) = digit_char (unat b div 16) # digit_char (unat b mod 16) # hex bs"
  by (simp add: hex_def hex_byte_def)

lemma literal_digits_step:
  "c \<noteq> CHR ''_'' \<Longrightarrow> val c = Some v \<Longrightarrow>
   literal_digits val b acc (c # cs) = literal_digits val b (acc * b + int v) cs"
  by (cases cs) simp_all

lemma literal_digits_hex:
  "literal_digits hex_value 16 acc (hex bs) = Some (foldl (\<lambda>a b. a * 256 + uint b) acc bs)"
proof (induction bs arbitrary: acc)
  case Nil
  show ?case by (simp add: hex_def)
next
  case (Cons b bs)
  let ?hi = "unat b div 16" and ?lo = "unat b mod 16"
  have val_eq: "(acc * 16 + int ?hi) * 16 + int ?lo = acc * 256 + uint b"
    by (simp add: zdiv_int zmod_int algebra_simps)
  have "literal_digits hex_value 16 acc (hex (b # bs))
      = literal_digits hex_value 16 (acc * 16 + int ?hi) (digit_char ?lo # hex bs)"
    using digit_char_cases [OF nibbles(1) [of b]]
    by (simp add: hex_Cons literal_digits_step)
  also have "\<dots> = literal_digits hex_value 16 ((acc * 16 + int ?hi) * 16 + int ?lo) (hex bs)"
    using digit_char_cases [OF nibbles(2) [of b]]
    by (simp add: literal_digits_step)
  also have "\<dots> = Some (foldl (\<lambda>a b. a * 256 + uint b) (acc * 256 + uint b) bs)"
    by (simp only: val_eq Cons.IH)
  finally show ?case
    by simp
qed

lemma int_of_0x_hex:
  assumes "bs \<noteq> []"
  shows "int_of_0x (hex bs) = Inr (big_endian_value bs)"
proof -
  from assms obtain b bs' where bs: "bs = b # bs'"
    by (cases bs) auto
  let ?h = "digit_char (unat b div 16)"
  let ?rest = "digit_char (unat b mod 16) # hex bs'"
  have h: "hex_value ?h = Some (unat b div 16)" "?h \<noteq> CHR ''_''"
    using digit_char_cases [OF nibbles(1) [of b]] by simp_all
  have "literal hex_value 16 (?h # ?rest) = literal_digits hex_value 16 (int (unat b div 16)) ?rest"
    by (simp add: literal_def h)
  also have "\<dots> = literal_digits hex_value 16 0 (?h # ?rest)"
    using literal_digits_step [of ?h hex_value "unat b div 16" 16 0 ?rest] h by simp
  also have "\<dots> = Some (big_endian_value bs)"
    using literal_digits_hex [of 0 bs] by (simp add: bs hex_Cons big_endian_value_def)
  finally show ?thesis
    by (simp add: int_of_0x_def bs hex_Cons h)
qed

lemma hex_replicate_ff: "hex (replicate n 0xff) = replicate (2 * n) (CHR ''f'')"
  by (induction n) (simp_all add: hex_def hex_byte_def digit_char_def)

lemma foldl_replicate_ff:
  "foldl (\<lambda>a b. a * 256 + uint (b :: byte)) acc (replicate n 0xff) = (acc + 1) * 256 ^ n - 1"
proof (induction n arbitrary: acc)
  case 0
  show ?case by simp
next
  case (Suc n)
  have "uint (0xff :: byte) = 255"
    by simp
  then show ?case
    using Suc.IH [of "acc * 256 + 255"] by (simp add: algebra_simps)
qed

lemma int_of_0x_all_f:
  "0 < n \<Longrightarrow> int_of_0x (replicate (n * 2) (CHR ''f'')) = Inr (256 ^ n - 1)"
  using int_of_0x_hex [of "replicate n 0xff"] foldl_replicate_ff [of 0 n]
  by (simp add: hex_replicate_ff big_endian_value_def mult.commute)

lemma str_le_all_f: "str_le (hex bs) (replicate (2 * length bs) (CHR ''f''))"
proof (induction bs)
  case Nil
  show ?case by (simp add: hex_def)
next
  case (Cons b bs)
  then show ?case
    using digit_char_cases(4) [OF nibbles(1) [of b]] digit_char_cases(4) [OF nibbles(2) [of b]]
    by (auto simp: hex_Cons)
qed

lemma HighestPositive_prefix:
  assumes "0 < n" "n \<le> 10"
  shows "slice_to HighestPositive (int n * 2) = CHR ''7'' # CHR ''f'' # replicate (2 * (n - 1)) (CHR ''f'')"
proof -
  have hp: "HighestPositive = CHR ''7'' # replicate 19 (CHR ''f'')"
    by (simp add: HighestPositive_def eval_nat_numeral)
  from assms obtain m where n: "n = Suc m" and m: "m \<le> 9"
    by (cases n) auto
  have "slice_index (length HighestPositive) (int n * 2) = Suc (Suc (2 * m))"
    using m by (simp add: hp slice_index_def n nat_mult_distrib nat_add_distrib)
  moreover have "take (Suc (Suc (2 * m))) (CHR ''7'' # replicate 19 (CHR ''f''))
      = CHR ''7'' # CHR ''f'' # replicate (2 * m) (CHR ''f'')"
    using m by (simp add: min_def replicate_Suc [symmetric] del: replicate_Suc) 
  ultimately show ?thesis
    by (simp add: slice_to_def hp n)
qed

lemma str_le_threshold:
  "str_le (hex (b # bs)) (CHR ''7'' # CHR ''f'' # replicate (2 * length bs) (CHR ''f'')) = (b < 0x80)"
proof -
  have "(unat b div 16 \<le> 7) = (b < 0x80)"
    by (simp add: word_less_nat_alt) arith
  then show ?thesis
    using digit_char_cases(5) [OF nibbles(1) [of b]] digit_char_cases(4) [OF nibbles(2) [of b]]
      str_le_all_f [of bs]
    by (auto simp: hex_Cons)
qed


lemma add_dec_places_0: "add_dec_places v 0 = v"
  by (simp add: add_dec_places_def)

lemma unpack_binary:
  assumes "bs \<noteq> []"
  shows "unpack bs ''bi'' 0 lv sp = Inr (str (big_endian_value bs))"
  using int_of_0x_hex [OF assms] by (simp add: unpack_def lower_literals add_dec_places_0)

lemma unpack_signed_binary_upto_ten_bytes:
  assumes "bs \<noteq> []" and "length bs \<le> 10"
  shows "unpack bs ''bi+'' 0 lv sp =
    Inr (str (if hd bs < 0x80 then big_endian_value bs
              else big_endian_value bs - 256 ^ length bs))"
proof -
  from assms obtain b bs' where bs: "bs = b # bs'"
    by (cases bs) auto
  have "slice_to HighestPositive (int (length bs) * 2)
      = CHR ''7'' # CHR ''f'' # replicate (2 * length bs') (CHR ''f'')"
    using HighestPositive_prefix [of "length bs"] assms by (simp add: bs)
  then have threshold:
    "str_le (hex bs) (slice_to HighestPositive (int (length bs) * 2)) = (hd bs < 0x80)"
    using str_le_threshold [of b bs'] by (simp add: bs)
  have all_f: "int_of_0x (replicate (length bs * 2) (CHR ''f'')) = Inr (256 ^ length bs - 1)"
    using int_of_0x_all_f [of "length bs"] assms by simp
  show ?thesis
    using int_of_0x_hex [OF assms(1)] threshold all_f
    by (simp add: unpack_def lower_literals add_dec_places_0)
qed

section \<open>Properties of the codec\<close>

text \<open>
  Claim C7. Decoding a buffer with the hex format and encoding the resulting string with
  the hex format returns the buffer. It holds for every buffer, the non-empty ones of
  the claim included, and whatever the other parameters of the two calls are.
\<close>

theorem hex_round_trip:
  "(case unpack buf ''hex'' d lv sp of
      Inl e \<Rightarrow> Inl e
    | Inr s \<Rightarrow> pack s ''hex'' d' pad) = Inr buf"
  by (simp add: unpack_def pack_def lower_literals fromhex_hex)



text \<open>
  Claim C6, amended. Decimal-point insertion never fails. When the decimal-place count
  \<open>n\<close> exceeds the length \<open>L\<close> of the string, both slices take a negative index, which
  counts from the end: the point goes after the first \<open>2 * L - n\<close> characters, and in
  front of the whole string once \<open>n\<close> reaches \<open>2 * L\<close>.
\<close>

theorem add_dec_places_overflow:
  "int (length v) < n \<Longrightarrow>
   add_dec_places v n =
     take (nat (2 * int (length v) - n)) v @ ''.'' @ drop (nat (2 * int (length v) - n)) v"
  by (simp add: add_dec_places_def slice_to_def slice_from_def slice_index_def)

theorem add_dec_places_overflow_witness:
  "int (length ''123'') < 5 \<and> add_dec_places ''123'' 5 = ''1.23''"
  using add_dec_places_overflow [of "''123''" 5] by simp

text \<open>
  Claim C8. Both functions compare the lower-cased tag only. Two tags that agree up to
  case give the same outcome whenever the tag is a recognized one; when it is not, both
  calls end in \<^verbatim>\<open>exit()\<close>, the printed text echoing the tag as it was given.
\<close>

theorem tag_case_insensitive:
  "lower t' = lower t \<Longrightarrow>
   (lower t \<in> set unpack_tags \<longrightarrow> unpack b t' d lv sp = unpack b t d lv sp) \<and>
   (lower t \<in> set pack_tags \<longrightarrow> pack v t' d p = pack v t d p) \<and>
   (lower t \<notin> set unpack_tags \<longrightarrow>
      exits (unpack b t' d lv sp) \<and> exits (unpack b t d lv sp)) \<and>
   (lower t \<notin> set pack_tags \<longrightarrow> exits (pack v t' d p) \<and> exits (pack v t d p))"
  by (simp add: unpack_def pack_def unpack_tags_def pack_tags_def exits_def)

theorem tag_case_insensitive_witness:
  "lower ''PD'' = lower ''pd'' \<and>
   lower ''pd'' \<in> set unpack_tags \<and> lower ''pd'' \<in> set pack_tags \<and>
   unpack [0x12, 0x3c] ''PD'' 0 False False = unpack [0x12, 0x3c] ''pd'' 0 False False \<and>
   pack ''123'' ''PD'' 0 2 = pack ''123'' ''pd'' 0 2 \<and>
   lower ''XYZ'' = lower ''xyz'' \<and>
   lower ''xyz'' \<notin> set unpack_tags \<and> lower ''xyz'' \<notin> set pack_tags \<and>
   exits (unpack [0x12, 0x3c] ''XYZ'' 0 False False) \<and>
   exits (unpack [0x12, 0x3c] ''xyz'' 0 False False) \<and>
   exits (pack ''123'' ''XYZ'' 0 2) \<and> exits (pack ''123'' ''xyz'' 0 2)"
proof -
  have a: "lower ''PD'' = lower ''pd''" and b: "lower ''XYZ'' = lower ''xyz''"
    by (simp_all add: lower_literals)
  have m: "lower ''pd'' \<in> set unpack_tags" "lower ''pd'' \<in> set pack_tags"
    "lower ''xyz'' \<notin> set unpack_tags" "lower ''xyz'' \<notin> set pack_tags"
    by (simp_all add: lower_literals unpack_tags_def pack_tags_def)
  show ?thesis
    using a b m
      tag_case_insensitive [OF a, of "[0x12, 0x3c]" 0 False False "''123''" 2]
      tag_case_insensitive [OF b, of "[0x12, 0x3c]" 0 False False "''123''" 2]
    by simp
qed




end
